theory Spec2Isabelle
  imports Complex_Main
begin

section \<open>Python floats\<close>

text \<open>
  The losses and the weights of \<^verbatim>\<open>GROECombinationModel\<close> are Python/numpy floats, that
  is IEEE 754 binary64 numbers. A float is a finite value, one of the two infinities, or
  not-a-number. The finite values are carried as real numbers, and every finite result of
  an addition, a multiplication or a division is the exact real result rounded to
  binary64, so that rounding, overflow to an infinity and underflow are part of the
  model. The two signed zeros are the one value \<open>Fin 0\<close>. The special values follow
  IEEE 754 as numpy applies it (a division by zero gives an infinity or not-a-number and
  a warning, never an exception).
\<close>

datatype pyfloat = Fin real | PosInf | NegInf | NaN

subsection \<open>Rounding to binary64\<close>

text \<open>
  Round to nearest, ties to even. A binary64 number has 53 significant bits: a positive
  \<open>x\<close> in the binade \<open>e\<close> (2 to the \<open>e\<close> is at most \<open>x\<close>, and \<open>x\<close> is below 2 to the
  \<open>e + 1\<close>) is rounded to a multiple of 2 to the \<open>e - 52\<close>, and below 2 to the \<open>-1022\<close>
  (the subnormal range) the step stays 2 to the \<open>-1074\<close>. \<open>round_half_even\<close> rounds a
  real to the nearest integer, a tie to the even one. A magnitude that rounds to 2 to the
  1024 or more overflows to an infinity.
\<close>

definition round_half_even :: "real \<Rightarrow> int" where
  "round_half_even y = (let f = \<lfloor>y\<rfloor>; d = y - of_int f in
     if d < 1 / 2 then f else if 1 / 2 < d then f + 1 else if even f then f else f + 1)"

definition binade :: "real \<Rightarrow> int" where
  "binade x = max \<lfloor>log 2 x\<rfloor> (- 1022)"

definition round_mag :: "real \<Rightarrow> real" where
  "round_mag x =
     of_int (round_half_even (x / 2 powr of_int (binade x - 52))) * 2 powr of_int (binade x - 52)"

definition round64 :: "real \<Rightarrow> pyfloat" where
  "round64 x =
     (if x = 0 then Fin 0
      else if 2 ^ 1024 \<le> round_mag \<bar>x\<bar> then (if 0 < x then PosInf else NegInf)
      else Fin (sgn x * round_mag \<bar>x\<bar>))"

subsection \<open>Comparisons and arithmetic\<close>

text \<open>Python's \<^verbatim>\<open>==\<close> on floats: not-a-number equals nothing, itself included.\<close>

fun py_eq :: "pyfloat \<Rightarrow> pyfloat \<Rightarrow> bool" where
  "py_eq NaN _ = False"
| "py_eq _ NaN = False"
| "py_eq a b = (a = b)"




fun fadd :: "pyfloat \<Rightarrow> pyfloat \<Rightarrow> pyfloat" where
  "fadd NaN _ = NaN"
| "fadd _ NaN = NaN"
| "fadd (Fin a) (Fin b) = round64 (a + b)"
| "fadd PosInf NegInf = NaN"
| "fadd NegInf PosInf = NaN"
| "fadd PosInf _ = PosInf"
| "fadd _ PosInf = PosInf"
| "fadd NegInf _ = NegInf"
| "fadd _ NegInf = NegInf"

fun fmul :: "pyfloat \<Rightarrow> pyfloat \<Rightarrow> pyfloat" where
  "fmul NaN _ = NaN"
| "fmul _ NaN = NaN"
| "fmul (Fin a) (Fin b) = round64 (a * b)"
| "fmul (Fin a) PosInf = (if a = 0 then NaN else if 0 < a then PosInf else NegInf)"
| "fmul (Fin a) NegInf = (if a = 0 then NaN else if 0 < a then NegInf else PosInf)"
| "fmul PosInf (Fin b) = (if b = 0 then NaN else if 0 < b then PosInf else NegInf)"
| "fmul NegInf (Fin b) = (if b = 0 then NaN else if 0 < b then NegInf else PosInf)"
| "fmul PosInf PosInf = PosInf"
| "fmul PosInf NegInf = NegInf"
| "fmul NegInf PosInf = NegInf"
| "fmul NegInf NegInf = PosInf"

text \<open>
  numpy's true division. A zero divisor is read as \<open>+0.0\<close>: in \<^verbatim>\<open>fit\<close> the only
  divisor that can be zero is \<^verbatim>\<open>score.sum()\<close>, and a sum of floats is \<open>-0.0\<close> only
  when every summand is \<open>-0.0\<close>, where every quotient is not-a-number for either sign.
\<close>

fun fdiv :: "pyfloat \<Rightarrow> pyfloat \<Rightarrow> pyfloat" where
  "fdiv NaN _ = NaN"
| "fdiv _ NaN = NaN"
| "fdiv (Fin a) (Fin b) =
     (if b = 0 then (if 0 < a then PosInf else if a < 0 then NegInf else NaN)
      else round64 (a / b))"
| "fdiv (Fin a) _ = Fin 0"
| "fdiv PosInf (Fin b) = (if 0 \<le> b then PosInf else NegInf)"
| "fdiv NegInf (Fin b) = (if 0 \<le> b then NegInf else PosInf)"
| "fdiv _ _ = NaN"

text \<open>\<^verbatim>\<open>x in xs\<close> for a list of floats and a needle that is not not-a-number.\<close>

definition py_in :: "pyfloat \<Rightarrow> pyfloat list \<Rightarrow> bool" where
  "py_in x xs = list_ex (\<lambda>y. py_eq y x) xs"

text \<open>\<^verbatim>\<open>xs.index(x)\<close>: the first position that equals \<open>x\<close>; \<open>None\<close> is Python's ValueError.\<close>

fun py_index :: "pyfloat list \<Rightarrow> pyfloat \<Rightarrow> nat option" where
  "py_index [] x = None"
| "py_index (y # ys) x = (if py_eq y x then Some 0 else map_option Suc (py_index ys x))"

text \<open>\<^verbatim>\<open>np.zeros(n)\<close>.\<close>

definition np_zeros :: "nat \<Rightarrow> pyfloat list" where
  "np_zeros n = replicate n (Fin 0)"

text \<open>
  The sum of floats from left to right, starting at \<open>0.0\<close>: what Python's builtin
  \<^verbatim>\<open>sum\<close> computes on floats.
\<close>

definition seq_sum :: "pyfloat list \<Rightarrow> pyfloat" where
  "seq_sum xs = foldl fadd (Fin 0) xs"


section \<open>Series\<close>

text \<open>
  Modelled from the spec: the class \<^verbatim>\<open>TimeSeries\<close> (\<^verbatim>\<open>darts/timeseries.py\<close>) is not
  part of the sources at hand. The spec describes it as "an ordered, timestamped numeric
  sequence supporting elementwise addition and scalar multiplication". A series is a list
  of (timestamp, value) pairs; adding two series needs the same timestamps and fails
  otherwise; adding a number to a series adds it to every value, which is what
  Python's \<^verbatim>\<open>sum\<close> does first with its start value \<open>0\<close>.
\<close>

type_synonym 't series = "('t \<times> pyfloat) list"

datatype error = EvaluationImpossible | IndexValueError | NotIterable | IncompatibleSeries

datatype 't pyval = Num pyfloat | TS "'t series"

definition ts_mul :: "'t series \<Rightarrow> pyfloat \<Rightarrow> 't series" where
  "ts_mul s k = map (\<lambda>(t, v). (t, fmul v k)) s"

fun py_add :: "'t pyval \<Rightarrow> 't pyval \<Rightarrow> error + 't pyval" where
  "py_add (Num a) (Num b) = Inr (Num (fadd a b))"
| "py_add (Num a) (TS s) = Inr (TS (map (\<lambda>(t, v). (t, fadd a v)) s))"
| "py_add (TS s) (Num b) = Inr (TS (map (\<lambda>(t, v). (t, fadd v b)) s))"
| "py_add (TS r) (TS s) =
     (if map fst r = map fst s
      then Inr (TS (map (\<lambda>((t, u), (_, v)). (t, fadd u v)) (zip r s)))
      else Inl IncompatibleSeries)"

text \<open>Python's builtin \<^verbatim>\<open>sum\<close>: a left fold of \<^verbatim>\<open>+\<close> that starts at the integer 0.\<close>

fun py_sum_from :: "'t pyval \<Rightarrow> 't pyval list \<Rightarrow> error + 't pyval" where
  "py_sum_from acc [] = Inr acc"
| "py_sum_from acc (x # xs) =
     (case py_add acc x of Inl e \<Rightarrow> Inl e | Inr acc' \<Rightarrow> py_sum_from acc' xs)"

definition py_sum :: "'t pyval list \<Rightarrow> error + 't pyval" where
  "py_sum xs = py_sum_from (Num (Fin 0)) xs"

section \<open>The GROE combination model\<close>

text \<open>
  The object's attributes. \<open>criterion\<close> is \<^verbatim>\<open>None\<close> after construction;
  \<open>weights\<close>, \<open>train_ts\<close> and \<open>predictions\<close> belong to the base class
  \<^verbatim>\<open>CombinationModel\<close> and are absent (\<open>None\<close>) until \<^verbatim>\<open>fit\<close> and \<^verbatim>\<open>predict\<close> set them.
  \<open>'m\<close> is the type of the constituent models, \<open>'mt\<close> of the metric, \<open>'v\<close> of the values
  of keyword arguments and \<open>'t\<close> of timestamps.
\<close>

record ('m, 'mt, 'v, 't) groe_combination_model =
  models :: "'m list"
  metrics :: 'mt
  n_evaluations :: 'v
  groe_kwargs :: "string \<rightharpoonup> 'v"
  criterion :: "pyfloat list option"
  weights :: "pyfloat list option"
  train_ts :: "'t series option"
  predictions :: "'t series list option"

text \<open>
  The evaluator \<^verbatim>\<open>generalized_rolling_origin_evaluation\<close> is an external collaborator,
  taken as a parameter: called with the training series, a model, the metric, the
  evaluation count and the auxiliary options, it returns a loss. It may fit the model and
  have other effects, so it threads a state \<open>'w\<close> of the world outside the object.
\<close>

type_synonym ('m, 'mt, 'v, 't, 'w) evaluator =
  "'t series option \<Rightarrow> 'm \<Rightarrow> 'mt \<Rightarrow> 'v \<Rightarrow> (string \<rightharpoonup> 'v) \<Rightarrow> 'w \<Rightarrow> pyfloat \<times> 'w"

text \<open>\<^verbatim>\<open>__init__\<close>, with the attributes of the base class not yet set.\<close>

definition init ::
  "'m list \<Rightarrow> 'mt \<Rightarrow> 'v \<Rightarrow> (string \<rightharpoonup> 'v) \<Rightarrow> ('m, 'mt, 'v, 't) groe_combination_model" where
  "init ms mt n kwargs =
     \<lparr>models = ms, metrics = mt, n_evaluations = n, groe_kwargs = kwargs,
      criterion = None, weights = None, train_ts = None, predictions = None\<rparr>"

text \<open>
  \<^verbatim>\<open>update_groe_params\<close>: \<^verbatim>\<open>**groe_kwargs\<close> is a fresh dictionary; when it has the
  key \<^verbatim>\<open>n_evaluations\<close>, \<^verbatim>\<open>pop\<close> takes the entry out before the dictionary is stored.
\<close>

definition update_groe_params ::
  "(string \<rightharpoonup> 'v) \<Rightarrow> ('m, 'mt, 'v, 't) groe_combination_model
     \<Rightarrow> ('m, 'mt, 'v, 't) groe_combination_model" where
  "update_groe_params kwargs st =
     (case kwargs ''n_evaluations'' of
        Some n \<Rightarrow> st\<lparr>n_evaluations := n, groe_kwargs := kwargs(''n_evaluations'' := None)\<rparr>
      | None \<Rightarrow> st\<lparr>groe_kwargs := kwargs\<rparr>)"

text \<open>
  Modelled from the spec: \<^verbatim>\<open>CombinationModel.fit\<close> is not part of the sources at hand.
  The base ensemble "owns the training series": its fit step stores the series that the
  loop of \<^verbatim>\<open>fit\<close> then reads as \<^verbatim>\<open>self.train_ts\<close>. What it does to the constituent
  models is an effect on the world before the first evaluator call.
\<close>

definition super_fit ::
  "'t series \<Rightarrow> ('m, 'mt, 'v, 't) groe_combination_model
     \<Rightarrow> ('m, 'mt, 'v, 't) groe_combination_model" where
  "super_fit ts st = st\<lparr>train_ts := Some ts\<rparr>"

text \<open>The loop of \<^verbatim>\<open>fit\<close>: one evaluator call per model, appended to \<^verbatim>\<open>self.criterion\<close>.\<close>

fun fit_loop ::
  "('m, 'mt, 'v, 't, 'w) evaluator \<Rightarrow> 'm list \<Rightarrow> ('m, 'mt, 'v, 't) groe_combination_model \<Rightarrow> 'w
     \<Rightarrow> ('m, 'mt, 'v, 't) groe_combination_model \<times> 'w" where
  "fit_loop groe [] st w = (st, w)"
| "fit_loop groe (m # ms) st w =
     (case groe (train_ts st) m (metrics st) (n_evaluations st) (groe_kwargs st) w of
        (c, w') \<Rightarrow>
          fit_loop groe ms (st\<lparr>criterion := map_option (\<lambda>cs. cs @ [c]) (criterion st)\<rparr>) w')"

text \<open>
  \<^verbatim>\<open>fit\<close> returns what Python leaves behind: whether it raised, the object after the
  call and the world after the call. In the order of the source: the base class's fit,
  \<^verbatim>\<open>self.criterion = []\<close>, the loop, the test \<^verbatim>\<open>np.inf in self.criterion\<close> with
  \<^verbatim>\<open>raise_log\<close> (which logs and raises its argument), the test \<^verbatim>\<open>0. in self.criterion\<close>
  with the one-hot weights (\<^verbatim>\<open>np.zeros\<close>, then the assignment at \<^verbatim>\<open>index(0.)\<close>), and
  otherwise \<^verbatim>\<open>score = 1 / np.array(self.criterion)\<close> and \<^verbatim>\<open>score / score.sum()\<close>, with
  numpy's summation as the parameter \<open>np_sum\<close>.
  Exceptions raised inside the evaluator or the base class are not modelled.
\<close>

definition fit ::
  "(pyfloat list \<Rightarrow> pyfloat) \<Rightarrow> ('m, 'mt, 'v, 't, 'w) evaluator \<Rightarrow> 't series
     \<Rightarrow> ('m, 'mt, 'v, 't) groe_combination_model \<Rightarrow> 'w
     \<Rightarrow> (error + unit) \<times> ('m, 'mt, 'v, 't) groe_combination_model \<times> 'w" where
  "fit np_sum groe ts st w =
     (case fit_loop groe (models st) ((super_fit ts st)\<lparr>criterion := Some []\<rparr>) w of
        (st1, w') \<Rightarrow>
          (case criterion st1 of
             None \<Rightarrow> (Inl NotIterable, st1, w')
           | Some crit \<Rightarrow>
               if py_in PosInf crit then (Inl EvaluationImpossible, st1, w')
               else if py_in (Fin 0) crit then
                 (case py_index crit (Fin 0) of
                    None \<Rightarrow> (Inl IndexValueError, st1\<lparr>weights := Some (np_zeros (length crit))\<rparr>, w')
                  | Some i \<Rightarrow>
                      (Inr (), st1\<lparr>weights := Some ((np_zeros (length crit))[i := Fin 1])\<rparr>, w'))
               else
                 (let score = map (fdiv (Fin 1)) crit
                  in (Inr (), st1\<lparr>weights := Some (map (\<lambda>s. fdiv s (np_sum score)) score)\<rparr>, w'))))"

text \<open>
  \<^verbatim>\<open>combination_function\<close>: \<^verbatim>\<open>map\<close> over two iterables stops with the shorter one;
  iterating over an absent attribute is a TypeError.
\<close>

definition combination_function ::
  "('m, 'mt, 'v, 't) groe_combination_model \<Rightarrow> error + 't pyval" where
  "combination_function st =
     (case (predictions st, weights st) of
        (Some ps, Some ws) \<Rightarrow> py_sum (map (\<lambda>(ts, weight). TS (ts_mul ts weight)) (zip ps ws))
      | _ \<Rightarrow> Inl NotIterable)"

section \<open>The evaluator calls of one fit\<close>

text \<open>
  The losses of a model list as the spec words them: "for each model, in list order, invoke
  the evaluator ... and collect the returned scalar into the criterion vector at the same
  index". \<open>evaluations\<close> returns the collected losses and the world after the last call.
\<close>

fun evaluations :: "('m \<Rightarrow> 'w \<Rightarrow> pyfloat \<times> 'w) \<Rightarrow> 'm list \<Rightarrow> 'w \<Rightarrow> pyfloat list \<times> 'w" where
  "evaluations ev [] w = ([], w)"
| "evaluations ev (m # ms) w =
     (case ev m w of (c, w') \<Rightarrow> (case evaluations ev ms w' of (cs, w'') \<Rightarrow> (c # cs, w'')))"

text \<open>The evaluator with the arguments that \<^verbatim>\<open>fit\<close> passes for every model.\<close>

definition fit_evaluator ::
  "('m, 'mt, 'v, 't, 'w) evaluator \<Rightarrow> 't series \<Rightarrow> ('m, 'mt, 'v, 't) groe_combination_model
     \<Rightarrow> 'm \<Rightarrow> 'w \<Rightarrow> pyfloat \<times> 'w" where
  "fit_evaluator groe ts st =
     (\<lambda>m. groe (Some ts) m (metrics st) (n_evaluations st) (groe_kwargs st))"

text \<open>
  An evaluator for the concrete instances below: the models are the numbers
  \<open>0, 1, 2, ...\<close> and model \<open>m\<close> gets the loss at position \<open>m\<close> of a table.
\<close>

definition table_groe :: "pyfloat list \<Rightarrow> (nat, 'mt, 'v, 't, 'w) evaluator" where
  "table_groe cs = (\<lambda>ts m mt n kwargs w. (if m < length cs then cs ! m else NaN, w))"


text \<open>
  A freshly constructed ensemble of the models \<open>0, ..., k - 1\<close> with the default
  evaluation count 6 and no auxiliary options, for the concrete instances below.
\<close>

definition fresh_model :: "nat \<Rightarrow> (nat, unit, nat, nat) groe_combination_model" where
  "fresh_model k = init [0..<k] () 6 Map.empty"

text \<open>
  To observe the evaluator calls of a fit, an evaluator is wrapped so that every call
  appends its arguments to a list kept in the world; the wrapped evaluator returns what
  the evaluator returns.
\<close>

type_synonym ('m, 'mt, 'v, 't) call = "'t series option \<times> 'm \<times> 'mt \<times> 'v \<times> (string \<rightharpoonup> 'v)"

definition logged ::
  "('m, 'mt, 'v, 't, 'w) evaluator \<Rightarrow> ('m, 'mt, 'v, 't, 'w \<times> ('m, 'mt, 'v, 't) call list) evaluator" where
  "logged groe = (\<lambda>ts m mt n kwargs (w, calls).
     case groe ts m mt n kwargs w of (c, w') \<Rightarrow> (c, (w', calls @ [(ts, m, mt, n, kwargs)])))"

text \<open>
  The combined value at position \<open>k\<close> as the spec words it: the sum over the models \<open>i\<close> of
  \<open>weight[i] \<times> prediction_i[t]\<close>, in float arithmetic and in model order.
\<close>

definition weighted_sum_at :: "'t series list \<Rightarrow> pyfloat list \<Rightarrow> nat \<Rightarrow> pyfloat" where
  "weighted_sum_at ps ws k = seq_sum (map (\<lambda>i. fmul (ws ! i) (snd (ps ! i ! k))) [0..<length ps])"

section \<open>Facts about rounding\<close>



lemma round_half_even_of_int [simp]: "round_half_even (of_int m) = m"
  by (simp add: round_half_even_def Let_def)

lemma round_half_even_eqI:
  assumes "\<bar>y - of_int m\<bar> < 1 / 2"
  shows "round_half_even y = m"
proof -
  from assms have lo: "of_int m - 1 / 2 < y" and hi: "y < of_int m + 1 / 2" by linarith+
  show ?thesis
  proof (cases "of_int m \<le> y")
    case True
    with hi have "\<lfloor>y\<rfloor> = m" by (intro floor_unique) linarith+
    with hi show ?thesis by (simp add: round_half_even_def Let_def)
  next
    case False
    with lo have f: "\<lfloor>y\<rfloor> = m - 1" by (intro floor_unique) (simp; linarith)+
    with lo have "1 / 2 < y - of_int \<lfloor>y\<rfloor>" by simp
    with f show ?thesis by (simp add: round_half_even_def Let_def)
  qed
qed








lemma pow2_mult: "a + b = c \<Longrightarrow> (2::real) powr a * 2 powr b = 2 powr c"
  by (simp add: powr_add [symmetric])






lemma round64_pos:
  assumes "0 < x"
  shows "round64 x = (if 2 ^ 1024 \<le> round_mag x then PosInf else Fin (round_mag x))"
  using assms by (simp add: round64_def)



lemma round64_dyadic:
  fixes n :: int and k :: nat
  assumes "0 < n" and "n < 2 ^ 53" and "k \<le> 1074"
  shows "round64 (of_int n / 2 ^ k) = Fin (of_int n / 2 ^ k)"
proof -
  let ?x = "real_of_int n / 2 ^ k"
  have x: "0 < ?x" using assms(1) by simp
  have "?x < 2 ^ 53 / 2 ^ k"
    using assms(2) by (simp add: divide_strict_right_mono)
  also have "\<dots> = 2 powr (53 - real k)"
    by (simp add: powr_diff powr_realpow powr_numeral)
  finally have "log 2 ?x < 53 - real k" using x by (simp add: log_less_iff)
  then have "\<lfloor>log 2 ?x\<rfloor> < 53 - int k" by (simp add: floor_less_iff)
  with assms(3) have d: "binade ?x \<le> 52 - int k" by (simp add: binade_def)
  define d where "d = nat (52 - int k - binade ?x)"
  have dd: "int d = 52 - int k - binade ?x" using d by (simp add: d_def)
  have i: "1 / (2::real) ^ k = 2 powr (- real k)"
    by (simp add: powr_minus powr_realpow inverse_eq_divide)
  have j: "1 / (2::real) powr of_int (binade ?x - 52) = 2 powr (- of_int (binade ?x - 52))"
    by (simp only: powr_minus inverse_eq_divide)
  have "?x / 2 powr of_int (binade ?x - 52) =
      of_int n * ((1 / 2 ^ k) * (1 / 2 powr of_int (binade ?x - 52)))"
    by simp
  also have "\<dots> = of_int n * (2 powr (- real k) * 2 powr (- of_int (binade ?x - 52)))"
    by (simp only: i j)
  also have "2 powr (- real k) * 2 powr (- of_int (binade ?x - 52)) = (2::real) powr (real d)"
  proof (rule pow2_mult)
    have "real d = real_of_int (int d)" by simp
    also have "\<dots> = real_of_int (52 - int k - binade ?x)" by (simp only: dd)
    finally show "- real k + - real_of_int (binade ?x - 52) = real d" by simp
  qed
  also have "(2::real) powr (real d) = of_int (2 ^ d)"
    by (simp add: powr_realpow)
  finally have sc: "?x / 2 powr of_int (binade ?x - 52) = of_int (n * 2 ^ d)" by simp
  have "round_mag ?x = of_int (n * 2 ^ d) * 2 powr of_int (binade ?x - 52)"
    by (simp only: round_mag_def sc round_half_even_of_int)
  also have "\<dots> = ?x" by (simp only: sc [symmetric]) simp
  finally have rm: "round_mag ?x = ?x" .
  have "real_of_int n * 1 \<le> real_of_int n * 2 ^ k"
    using assms(1) by (intro mult_left_mono) simp_all
  then have "?x \<le> real_of_int n" by (simp add: pos_divide_le_eq)
  also have "real_of_int n < 2 ^ 53"
    using assms(2) by (metis of_int_less_iff of_int_numeral of_int_power)
  finally have "?x < 2 ^ 53" .
  then have "?x < 2 ^ 1024" by (rule less_le_trans) simp
  with rm show ?thesis by (simp add: round64_pos [OF x])
qed


lemma binade_eqI:
  assumes "0 < x" and "2 powr of_int e \<le> x" and "x < 2 powr of_int (e + 1)" and "- 1022 \<le> e"
  shows "binade x = e"
proof -
  have "of_int e \<le> log 2 x" using assms(1,2) by (simp add: le_log_iff)
  moreover have "log 2 x < of_int e + 1" using assms(1,3) by (simp add: log_less_iff)
  ultimately have "\<lfloor>log 2 x\<rfloor> = e" by (intro floor_unique)
  with assms(4) show ?thesis by (simp add: binade_def)
qed


lemma round64_nearest:
  assumes "0 < x" and "2 powr of_int e \<le> x" and "x < 2 powr of_int (e + 1)" and "- 1022 \<le> e"
    and "\<bar>x / 2 powr of_int (e - 52) - of_int m\<bar> < 1 / 2"
    and "of_int m * 2 powr of_int (e - 52) < (2::real) ^ 1024"
  shows "round64 x = Fin (of_int m * 2 powr of_int (e - 52))"
proof -
  have b: "binade x = e" by (rule binade_eqI [OF assms(1-4)])
  have "round_half_even (x / 2 powr of_int (e - 52)) = m" by (rule round_half_even_eqI [OF assms(5)])
  then have "round_mag x = of_int m * 2 powr of_int (e - 52)"
    by (simp add: round_mag_def b)
  with assms(6) have "\<not> (2::real) ^ 1024 \<le> round_mag x" by (simp only: not_le)
  then show ?thesis
    using \<open>round_mag x = of_int m * 2 powr of_int (e - 52)\<close>
    by (simp only: round64_pos [OF assms(1)] if_False)
qed


text \<open>The values that the concrete instances below compute are binary64 numbers.\<close>

lemma round64_zero [simp]: "round64 0 = Fin 0"
  by (simp add: round64_def)

lemma round64_one [simp]: "round64 1 = Fin 1"
  using round64_dyadic [of 1 0] by simp

lemma round64_numeral: "(numeral n :: int) < 2 ^ 53 \<Longrightarrow> round64 (numeral n) = Fin (numeral n)"
  using round64_dyadic [of "numeral n" 0] by simp

lemma round64_fractions:
  "round64 (1 / 2) = Fin (1 / 2)" "round64 (1 / 4) = Fin (1 / 4)" "round64 (1 / 8) = Fin (1 / 8)"
  "round64 (3 / 2) = Fin (3 / 2)" "round64 (7 / 4) = Fin (7 / 4)"
  using round64_dyadic [of 1 1] round64_dyadic [of 1 2] round64_dyadic [of 1 3]
    round64_dyadic [of 3 1] round64_dyadic [of 7 2]
  by simp_all

section \<open>Facts about the float operations\<close>

lemma py_eq_PosInf [simp]: "py_eq y PosInf = (y = PosInf)"
  by (cases y) auto

lemma py_eq_zero [simp]: "py_eq y (Fin 0) = (y = Fin 0)"
  by (cases y) auto

lemma py_in_PosInf: "py_in PosInf xs = (PosInf \<in> set xs)"
  by (auto simp: py_in_def list_ex_iff)

lemma py_in_zero: "py_in (Fin 0) xs = (Fin 0 \<in> set xs)"
  by (auto simp: py_in_def list_ex_iff)

lemma py_index_first:
  "i < length xs \<Longrightarrow> xs ! i = Fin 0 \<Longrightarrow> (\<forall>j<i. xs ! j \<noteq> Fin 0) \<Longrightarrow> py_index xs (Fin 0) = Some i"
proof (induction xs arbitrary: i)
  case Nil
  then show ?case by simp
next
  case (Cons y ys)
  show ?case
  proof (cases i)
    case 0
    with Cons.prems show ?thesis by simp
  next
    case (Suc k)
    with Cons.prems have "y \<noteq> Fin 0" by auto
    moreover from Suc Cons.prems have "py_index ys (Fin 0) = Some k"
      by (intro Cons.IH) auto
    ultimately show ?thesis using Suc by simp
  qed
qed


lemma fmul_commute: "fmul a b = fmul b a"
  by (cases a; cases b) (simp_all add: mult.commute)









section \<open>What fit computes\<close>

lemma length_evaluations: "length (fst (evaluations ev ms w)) = length ms"
proof (induction ms arbitrary: w)
  case Nil
  show ?case by simp
next
  case (Cons m ms)
  obtain c w1 where e: "ev m w = (c, w1)" by (cases "ev m w")
  obtain cs w2 where r: "evaluations ev ms w1 = (cs, w2)" by (cases "evaluations ev ms w1")
  from Cons.IH [of w1] r have "length cs = length ms" by simp
  with e r show ?case by simp
qed

text \<open>The loop appends the losses of \<open>evaluations\<close> to the criterion it starts from.\<close>

lemma fit_loop_evaluations:
  "fit_loop groe ms st w =
     (st\<lparr>criterion := map_option (\<lambda>cs. cs @ fst (evaluations (\<lambda>m. groe (train_ts st) m (metrics st) (n_evaluations st) (groe_kwargs st)) ms w)) (criterion st)\<rparr>,
      snd (evaluations (\<lambda>m. groe (train_ts st) m (metrics st) (n_evaluations st) (groe_kwargs st)) ms w))"
proof (induction ms arbitrary: st w)
  case Nil
  show ?case by (simp add: option.map_ident)
next
  case (Cons m ms)
  show ?case
    by (simp add: Cons.IH split: prod.splits option.splits) (cases "criterion st"; simp)
qed

lemma fit_general:
  "fit np_sum groe ts st w =
     (let crit = fst (evaluations (fit_evaluator groe ts st) (models st) w);
          w' = snd (evaluations (fit_evaluator groe ts st) (models st) w);
          st1 = st\<lparr>criterion := Some crit, train_ts := Some ts\<rparr>
      in if PosInf \<in> set crit then (Inl EvaluationImpossible, st1, w')
         else if Fin 0 \<in> set crit then
           (case py_index crit (Fin 0) of
              None \<Rightarrow> (Inl IndexValueError, st1\<lparr>weights := Some (np_zeros (length crit))\<rparr>, w')
            | Some i \<Rightarrow> (Inr (), st1\<lparr>weights := Some ((np_zeros (length crit))[i := Fin 1])\<rparr>, w'))
         else (Inr (), st1\<lparr>weights := Some (map (\<lambda>s. fdiv s (np_sum (map (fdiv (Fin 1)) crit))) (map (fdiv (Fin 1)) crit))\<rparr>, w'))"
  by (simp add: fit_def fit_loop_evaluations super_fit_def fit_evaluator_def Let_def
      py_in_PosInf py_in_zero split: option.splits)

lemma fit_criterion:
  assumes "fit np_sum groe ts st w = (r, st', w')"
  shows "criterion st' = Some (fst (evaluations (fit_evaluator groe ts st) (models st) w))"
  using assms by (auto simp: fit_general Let_def split: if_splits option.splits)

lemma fit_criterion_length:
  assumes "fit np_sum groe ts st w = (r, st', w')" and "criterion st' = Some crit"
  shows "length crit = length (models st)"
  using fit_criterion [OF assms(1)] assms(2) by (simp add: length_evaluations)

lemma fit_unbounded:
  assumes "fit np_sum groe ts st w = (r, st', w')" and "criterion st' = Some crit"
    and "PosInf \<in> set crit"
  shows "r = Inl EvaluationImpossible" and "weights st' = weights st"
  using fit_criterion [OF assms(1)] assms
  by (auto simp: fit_general Let_def split: if_splits option.splits)

lemma fit_zero:
  assumes "fit np_sum groe ts st w = (r, st', w')" and "criterion st' = Some crit"
    and "PosInf \<notin> set crit" and "py_index crit (Fin 0) = Some i"
  shows "r = Inr ()" and "weights st' = Some ((np_zeros (length crit))[i := Fin 1])"
proof -
  have "Fin 0 \<in> set crit"
    using assms(4) by (induction crit arbitrary: i) (auto split: if_splits)
  then show "r = Inr ()" and "weights st' = Some ((np_zeros (length crit))[i := Fin 1])"
    using fit_criterion [OF assms(1)] assms
    by (auto simp: fit_general Let_def split: if_splits option.splits)
qed




lemma evaluations_logged:
  "evaluations (\<lambda>m. logged groe ts (f m) mt n kw) ms (w, calls) =
     (fst (evaluations (\<lambda>m. groe ts (f m) mt n kw) ms w),
      (snd (evaluations (\<lambda>m. groe ts (f m) mt n kw) ms w), calls @ map (\<lambda>m. (ts, f m, mt, n, kw)) ms))"
proof (induction ms arbitrary: w calls)
  case Nil
  show ?case by simp
next
  case (Cons m ms)
  obtain c w1 where e: "groe ts (f m) mt n kw w = (c, w1)" by (cases "groe ts (f m) mt n kw w")
  then have l: "logged groe ts (f m) mt n kw (w, calls) = (c, (w1, calls @ [(ts, f m, mt, n, kw)]))"
    by (simp add: logged_def)
  show ?case
    by (simp add: e l Cons.IH split: prod.splits)
qed

lemmas fit_eval = fit_def fresh_model_def init_def table_groe_def super_fit_def py_in_def
  seq_sum_def np_zeros_def upt_rec round64_numeral round64_fractions

section \<open>What the combination function computes\<close>

lemma series_eq: "map (\<lambda>k. (map fst a ! k, snd (a ! k))) [0..<length a] = a"
  by (rule nth_equalityI) simp_all

lemma series_add:
  assumes "map fst x = map fst a"
  shows "py_add (TS a) (TS x) =
    Inr (TS (map (\<lambda>k. (map fst a ! k, fadd (snd (a ! k)) (snd (x ! k)))) [0..<length a]))"
proof -
  have lx: "length x = length a"
    using assms by (rule map_eq_imp_length_eq)
  have "map (\<lambda>((t, u), (_, v)). (t, fadd u v)) (zip a x) =
      map (\<lambda>k. (map fst a ! k, fadd (snd (a ! k)) (snd (x ! k)))) [0..<length a]"
    using lx by (intro nth_equalityI) (simp_all add: split_beta)
  then show ?thesis using assms by simp
qed

lemma py_sum_from_series:
  assumes "\<forall>x\<in>set xs. map fst x = map fst a"
  shows "py_sum_from (TS a) (map TS xs) =
    Inr (TS (map (\<lambda>k. (map fst a ! k, foldl fadd (snd (a ! k)) (map (\<lambda>x. snd (x ! k)) xs)))
      [0..<length a]))"
  using assms
proof (induction xs arbitrary: a)
  case Nil
  then show ?case by (simp add: series_eq)
next
  case (Cons x xs)
  let ?a' = "map (\<lambda>k. (map fst a ! k, fadd (snd (a ! k)) (snd (x ! k)))) [0..<length a]"
  from Cons.prems have x: "map fst x = map fst a" and xs: "\<forall>x\<in>set xs. map fst x = map fst a"
    by simp_all
  have add: "py_add (TS a) (TS x) = Inr (TS ?a')"
    by (rule series_add [OF x])
  have fa: "map fst ?a' = map fst a"
    by (rule nth_equalityI) simp_all
  have la: "length ?a' = length a" by simp
  from xs fa have xs': "\<forall>x\<in>set xs. map fst x = map fst ?a'" by (simp only:)
  have "py_sum_from (TS a) (map TS (x # xs)) = py_sum_from (TS ?a') (map TS xs)"
    using add by simp
  also have "\<dots> = Inr (TS (map (\<lambda>k. (map fst ?a' ! k, foldl fadd (snd (?a' ! k)) (map (\<lambda>x. snd (x ! k)) xs)))
      [0..<length ?a']))"
    by (rule Cons.IH [OF xs'])
  also have "map (\<lambda>k. (map fst ?a' ! k, foldl fadd (snd (?a' ! k)) (map (\<lambda>x. snd (x ! k)) xs))) [0..<length ?a'] =
      map (\<lambda>k. (map fst a ! k, foldl fadd (snd (a ! k)) (map (\<lambda>x. snd (x ! k)) (x # xs)))) [0..<length a]"
    unfolding fa la by (rule map_cong) simp_all
  finally show ?case .
qed

lemma py_sum_series:
  assumes "\<forall>x\<in>set xs. map fst x = map fst y"
  shows "py_sum (map TS (y # xs)) =
    Inr (TS (map (\<lambda>k. (map fst y ! k, seq_sum (map (\<lambda>x. snd (x ! k)) (y # xs)))) [0..<length y]))"
proof -
  let ?y0 = "map (\<lambda>(t, v). (t, fadd (Fin 0) v)) y"
  have fy: "map fst ?y0 = map fst y"
    by (rule nth_equalityI) (simp_all add: split_beta)
  have ly: "length ?y0 = length y" by simp
  from assms fy have xs: "\<forall>x\<in>set xs. map fst x = map fst ?y0" by (simp only:)
  have "py_sum (map TS (y # xs)) = py_sum_from (TS ?y0) (map TS xs)"
    by (simp add: py_sum_def)
  also note py_sum_from_series [OF xs]
  also have "map (\<lambda>k. (map fst ?y0 ! k, foldl fadd (snd (?y0 ! k)) (map (\<lambda>x. snd (x ! k)) xs)))
        [0..<length ?y0] =
      map (\<lambda>k. (map fst y ! k, seq_sum (map (\<lambda>x. snd (x ! k)) (y # xs)))) [0..<length y]"
    unfolding fy ly by (rule map_cong) (simp_all add: seq_sum_def split_beta)
  finally show ?thesis .
qed

lemma fst_ts_mul: "map fst (ts_mul p x) = map fst p"
  by (rule nth_equalityI) (simp_all add: ts_mul_def split_beta)

lemma snd_ts_mul: "k < length p \<Longrightarrow> snd (ts_mul p x ! k) = fmul (snd (p ! k)) x"
  by (simp add: ts_mul_def split_beta)

lemma scaled_values:
  assumes "length ps = length ws" and "\<forall>p\<in>set ps. k < length p"
  shows "map (\<lambda>x. snd (x ! k)) (map (\<lambda>(p, x). ts_mul p x) (zip ps ws)) =
    map (\<lambda>i. fmul (ws ! i) (snd (ps ! i ! k))) [0..<length ps]"
proof (rule nth_equalityI)
  show "length (map (\<lambda>x. snd (x ! k)) (map (\<lambda>(p, x). ts_mul p x) (zip ps ws))) =
      length (map (\<lambda>i. fmul (ws ! i) (snd (ps ! i ! k))) [0..<length ps])"
    using assms(1) by simp
next
  fix i
  assume "i < length (map (\<lambda>x. snd (x ! k)) (map (\<lambda>(p, x). ts_mul p x) (zip ps ws)))"
  then have i: "i < length ps" using assms(1) by simp
  then have "k < length (ps ! i)" using assms(2) by simp
  then have "snd (ts_mul (ps ! i) (ws ! i) ! k) = fmul (ws ! i) (snd (ps ! i ! k))"
    by (simp only: snd_ts_mul fmul_commute)
  then show "map (\<lambda>x. snd (x ! k)) (map (\<lambda>(p, x). ts_mul p x) (zip ps ws)) ! i =
      map (\<lambda>i. fmul (ws ! i) (snd (ps ! i ! k))) [0..<length ps] ! i"
    using i assms(1) by simp
qed

section \<open>Rounded values of the concrete instances\<close>













text \<open>
  The floats nearest to \<open>0.2\<close> and \<open>0.4\<close> times 10, 20 and 30: the products round to
  2, 8 and 12.
\<close>

lemma round64_product_a: "round64 (18014398509481985 / 9007199254740992) = Fin 2"
  using round64_nearest [of "18014398509481985 / 9007199254740992" 1 4503599627370496]
  by (simp add: powr_neg_numeral powr_numeral)

lemma round64_product_b: "round64 (18014398509481985 / 2251799813685248) = Fin 8"
  using round64_nearest [of "18014398509481985 / 2251799813685248" 3 4503599627370496]
  by (simp add: powr_neg_numeral powr_numeral)

lemma round64_product_c: "round64 (54043195528445955 / 4503599627370496) = Fin 12"
  using round64_nearest [of "54043195528445955 / 4503599627370496" 3 6755399441055744]
  by (simp add: powr_neg_numeral powr_numeral)

section \<open>The claims\<close>

text \<open>
  Claim C1, as amended. If any entry of the criterion vector computed during fit equals the
  unbounded sentinel (infinity), then fit fails with the evaluation-impossible condition
  and assigns no weight vector: the stored weight vector is exactly what it was before
  the call (absent when no fit has succeeded before).
\<close>

theorem fit_unbounded_fails:
  assumes "fit np_sum groe ts st w = (r, st', w')"
    and "criterion st' = Some crit"
    and "py_in PosInf crit"
  shows "r = Inl EvaluationImpossible \<and> weights st' = weights st"
  using fit_unbounded [OF assms(1,2)] assms(3) by (simp add: py_in_PosInf)

text \<open>The spec's instance: the criterion \<open>[1.0, inf]\<close> on a fresh ensemble.\<close>

theorem fit_unbounded_fails_witness:
  "criterion (fst (snd (fit seq_sum (table_groe [Fin 1, PosInf]) [] (fresh_model 2) ()))) =
     Some [Fin 1, PosInf] \<and>
   fst (fit seq_sum (table_groe [Fin 1, PosInf]) [] (fresh_model 2) ()) = Inl EvaluationImpossible \<and>
   weights (fst (snd (fit seq_sum (table_groe [Fin 1, PosInf]) [] (fresh_model 2) ()))) = None"
proof -
  let ?f = "fit seq_sum (table_groe [Fin 1, PosInf]) [] (fresh_model 2) ()"
  have f: "?f = (fst ?f, fst (snd ?f), ())" by (simp add: prod_eq_iff)
  have c: "criterion (fst (snd ?f)) = Some [Fin 1, PosInf]" by (simp add: fit_eval)
  have i: "py_in PosInf [Fin 1, PosInf]" by (simp add: py_in_def)
  have "weights (fresh_model 2) = None" by (simp add: fresh_model_def init_def)
  with fit_unbounded_fails [OF f c i] c show ?thesis by simp
qed

text \<open>
  The claim as stated fails: nothing in \<^verbatim>\<open>fit\<close> clears \<^verbatim>\<open>self.weights\<close>. After a
  successful fit with the criterion \<open>[1.0, 1.0]\<close> and a failed fit with \<open>[1.0, inf]\<close>,
  the object holds the new criterion and still the weights \<open>[0.5, 0.5]\<close> of the first
  fit, and the combination function uses them: the predictions 10 and 20 combine to 15.
\<close>

theorem fit_stale_weights_counterexample:
  "fst (fit seq_sum (table_groe [Fin 1, Fin 1]) [] (fresh_model 2) ()) = Inr () \<and>
   weights (fst (snd (fit seq_sum (table_groe [Fin 1, Fin 1]) [] (fresh_model 2) ()))) =
     Some [Fin (1 / 2), Fin (1 / 2)] \<and>
   criterion (fst (snd (fit seq_sum (table_groe [Fin 1, PosInf]) []
     (fst (snd (fit seq_sum (table_groe [Fin 1, Fin 1]) [] (fresh_model 2) ()))) ()))) =
     Some [Fin 1, PosInf] \<and>
   fst (fit seq_sum (table_groe [Fin 1, PosInf]) []
     (fst (snd (fit seq_sum (table_groe [Fin 1, Fin 1]) [] (fresh_model 2) ()))) ()) =
     Inl EvaluationImpossible \<and>
   weights (fst (snd (fit seq_sum (table_groe [Fin 1, PosInf]) []
     (fst (snd (fit seq_sum (table_groe [Fin 1, Fin 1]) [] (fresh_model 2) ()))) ()))) =
     Some [Fin (1 / 2), Fin (1 / 2)] \<and>
   combination_function ((fst (snd (fit seq_sum (table_groe [Fin 1, PosInf]) []
     (fst (snd (fit seq_sum (table_groe [Fin 1, Fin 1]) [] (fresh_model 2) ()))) ())))
       \<lparr>predictions := Some [[(0, Fin 10)], [(0, Fin 20)]]\<rparr>) = Inr (TS [(0, Fin 15)])"
  by (simp add: fit_eval combination_function_def py_sum_def ts_mul_def)

text \<open>
  Claim C2. For every criterion vector with no unbounded entry and at least one entry
  exactly equal to zero, fit succeeds with a one-hot weight vector: when \<open>i\<close> is the first
  index (in model-list order) whose criterion is exactly zero, the weight at \<open>i\<close> is 1 and
  every other weight is 0, also where a later criterion is zero as well.
\<close>

theorem fit_one_hot_first_zero:
  assumes "fit np_sum groe ts st w = (r, st', w')"
    and "criterion st' = Some crit"
    and "\<not> py_in PosInf crit"
    and "i < length crit"
    and "py_eq (crit ! i) (Fin 0)"
    and "\<forall>j<i. \<not> py_eq (crit ! j) (Fin 0)"
  shows "r = Inr () \<and> length crit = length (models st) \<and>
    (\<exists>ws. weights st' = Some ws \<and> length ws = length crit \<and> ws ! i = Fin 1 \<and>
       (\<forall>k<length crit. k \<noteq> i \<longrightarrow> ws ! k = Fin 0))"
proof -
  have idx: "py_index crit (Fin 0) = Some i"
    using assms(4-6) by (intro py_index_first) auto
  have noinf: "PosInf \<notin> set crit"
    using assms(3) by (simp add: py_in_PosInf)
  note z = fit_zero [OF assms(1,2) noinf idx]
  have "length crit = length (models st)"
    by (rule fit_criterion_length [OF assms(1,2)])
  moreover have "\<forall>k<length crit. k \<noteq> i \<longrightarrow> (np_zeros (length crit))[i := Fin 1] ! k = Fin 0"
    by (simp add: np_zeros_def)
  moreover have "(np_zeros (length crit))[i := Fin 1] ! i = Fin 1"
    using assms(4) by (simp add: np_zeros_def)
  ultimately show ?thesis using z by (simp add: np_zeros_def)
qed

text \<open>The spec's instance: the criterion \<open>[0.5, 0.0, 0.0]\<close> gives the weights \<open>[0.0, 1.0, 0.0]\<close>.\<close>

theorem fit_one_hot_first_zero_witness:
  "fst (fit seq_sum (table_groe [Fin (1/2), Fin 0, Fin 0]) ([] :: (nat \<times> pyfloat) list)
       (init [0, 1, 2] () (6::nat) Map.empty) ()) = Inr () \<and>
   weights (fst (snd (fit seq_sum (table_groe [Fin (1/2), Fin 0, Fin 0]) ([] :: (nat \<times> pyfloat) list)
       (init [0, 1, 2] () (6::nat) Map.empty) ()))) = Some [Fin 0, Fin 1, Fin 0]"
proof -
  let ?f = "fit seq_sum (table_groe [Fin (1/2), Fin 0, Fin 0]) ([] :: (nat \<times> pyfloat) list)
       (init [0, 1, 2] () (6::nat) Map.empty) ()"
  let ?crit = "[Fin (1/2), Fin 0, Fin 0]"
  have c: "criterion (fst (snd ?f)) = Some ?crit"
    by (simp add: fit_def init_def table_groe_def super_fit_def py_in_def np_zeros_def)
  have f: "?f = (fst ?f, fst (snd ?f), snd (snd ?f))" by (simp add: prod_eq_iff)
  have h1: "\<not> py_in PosInf ?crit" by (simp add: py_in_def)
  have h2: "(1::nat) < length ?crit" by simp
  have h3: "py_eq (?crit ! 1) (Fin 0)" by simp
  have h4: "\<forall>j<(1::nat). \<not> py_eq (?crit ! j) (Fin 0)" by simp
  from fit_one_hot_first_zero [OF f c h1 h2 h3 h4]
  obtain ws where r: "fst ?f = Inr ()" and w: "weights (fst (snd ?f)) = Some ws"
    "length ws = length ?crit" "ws ! 1 = Fin 1" "\<forall>k<length ?crit. k \<noteq> 1 \<longrightarrow> ws ! k = Fin 0"
    by blast
  from w(4) have "ws ! 0 = Fin 0" and "ws ! Suc (Suc 0) = Fin 0" by simp_all
  with w(2,3) have "ws = [Fin 0, Fin 1, Fin 0]"
    by (simp add: list_eq_iff_nth_eq nth_Cons' less_Suc_eq numeral_3_eq_3)
  with r w(1) show ?thesis by simp
qed










text \<open>
  Claim C6. The combination function returns the elementwise weighted sum of the stored
  per-model predictions with the stored weight vector: when there is at least one
  prediction, as many weights as predictions, and all predictions have the same
  timestamps, the result is the series on those timestamps whose value at every
  timestamp is the sum over the models \<open>i\<close> of \<open>weight[i] \<times> prediction_i[t]\<close>.
\<close>

theorem combination_function_weighted_sum:
  assumes "predictions st = Some ps" and "weights st = Some ws"
    and "length ps = length ws" and "ps \<noteq> []"
    and "\<forall>p\<in>set ps. map fst p = stamps"
  shows "combination_function st =
    Inr (TS (map (\<lambda>k. (stamps ! k, weighted_sum_at ps ws k)) [0..<length stamps]))"
proof -
  let ?xs = "map (\<lambda>(p, x). ts_mul p x) (zip ps ws)"
  from assms(3,4) obtain p0 ps' w0 ws' where ps: "ps = p0 # ps'" and ws: "ws = w0 # ws'"
    by (cases ps; cases ws) auto
  let ?y = "ts_mul p0 w0"
  let ?rest = "map (\<lambda>(p, x). ts_mul p x) (zip ps' ws')"
  have xs: "?xs = ?y # ?rest" by (simp add: ps ws)
  have len: "\<forall>p\<in>set ps. length p = length stamps"
    using assms(5) by (metis length_map)
  have fy: "map fst ?y = stamps" using assms(5) by (simp add: fst_ts_mul ps)
  have ly: "length ?y = length stamps" using fy by (metis length_map)
  have "\<forall>x\<in>set ?xs. map fst x = stamps"
    using assms(5) by (auto simp: fst_ts_mul dest: set_zip_leftD)
  then have rest: "\<forall>x\<in>set ?rest. map fst x = map fst ?y"
    by (simp only: xs fy) simp
  have "combination_function st = py_sum (map TS ?xs)"
    by (simp add: combination_function_def assms(1,2) case_prod_unfold comp_def)
  also have "\<dots> = py_sum (map TS (?y # ?rest))" by (simp only: xs)
  also have "\<dots> = Inr (TS (map (\<lambda>k. (map fst ?y ! k, seq_sum (map (\<lambda>x. snd (x ! k)) (?y # ?rest))))
      [0..<length ?y]))"
    by (rule py_sum_series [OF rest])
  also have "map (\<lambda>k. (map fst ?y ! k, seq_sum (map (\<lambda>x. snd (x ! k)) (?y # ?rest)))) [0..<length ?y] =
      map (\<lambda>k. (stamps ! k, weighted_sum_at ps ws k)) [0..<length stamps]"
    unfolding fy ly
  proof (rule map_cong)
    fix k assume "k \<in> set [0..<length stamps]"
    then have "\<forall>p\<in>set ps. k < length p" using len by simp
    from scaled_values [OF assms(3) this]
    have "map (\<lambda>x. snd (x ! k)) (?y # ?rest) =
        map (\<lambda>i. fmul (ws ! i) (snd (ps ! i ! k))) [0..<length ps]"
      by (simp only: xs)
    then show "(stamps ! k, seq_sum (map (\<lambda>x. snd (x ! k)) (?y # ?rest))) =
        (stamps ! k, weighted_sum_at ps ws k)"
      by (simp only: weighted_sum_at_def)
  qed simp
  finally show ?thesis .
qed

text \<open>
  The spec's instance: the weights \<open>[0.2, 0.4, 0.4]\<close> (the floats nearest to these
  decimals) and the single-point predictions 10, 20 and 30 at the same timestamp combine
  to 22 at that timestamp: the three products round to 2, 8 and 12.
\<close>

theorem combination_function_weighted_sum_witness:
  "combination_function ((fresh_model 3)\<lparr>weights := Some
        [Fin (3602879701896397 / 18014398509481984), Fin (3602879701896397 / 9007199254740992),
         Fin (3602879701896397 / 9007199254740992)],
      predictions := Some [[(0, Fin 10)], [(0, Fin 20)], [(0, Fin 30)]]\<rparr>) =
     Inr (TS [(0, Fin 22)])"
proof -
  let ?ws = "[Fin (3602879701896397 / 18014398509481984), Fin (3602879701896397 / 9007199254740992),
    Fin (3602879701896397 / 9007199254740992)]"
  let ?ps = "[[(0::nat, Fin 10)], [(0, Fin 20)], [(0, Fin 30)]]"
  let ?st = "(fresh_model 3)\<lparr>weights := Some ?ws, predictions := Some ?ps\<rparr>"
  have p: "predictions ?st = Some ?ps" and w: "weights ?st = Some ?ws" by simp_all
  have l: "length ?ps = length ?ws" and n: "?ps \<noteq> []" by simp_all
  have t: "\<forall>p\<in>set ?ps. map fst p = [0]" by simp
  have v: "weighted_sum_at ?ps ?ws 0 = Fin 22"
    by (simp add: weighted_sum_at_def seq_sum_def upt_rec round64_product_a round64_product_b
        round64_product_c round64_numeral)
  from combination_function_weighted_sum [OF p w l n t] v show ?thesis by simp
qed

text \<open>
  Claim C7. The configuration update replaces the auxiliary options by the supplied
  mapping, whatever the options were before. If the supplied mapping has an entry
  \<^verbatim>\<open>n_evaluations\<close>, its value becomes the stored evaluation count and the entry is
  removed from the stored options; otherwise the stored evaluation count is unchanged.
\<close>

theorem update_groe_params_replaces_options:
  "(kwargs ''n_evaluations'' = None \<longrightarrow>
      groe_kwargs (update_groe_params kwargs st) = kwargs \<and>
      n_evaluations (update_groe_params kwargs st) = n_evaluations st) \<and>
   (\<forall>n. kwargs ''n_evaluations'' = Some n \<longrightarrow>
      n_evaluations (update_groe_params kwargs st) = n \<and>
      groe_kwargs (update_groe_params kwargs st) = kwargs(''n_evaluations'' := None))"
  by (simp add: update_groe_params_def)

text \<open>
  An update with and an update without an evaluation count, on an object that had the
  option \<^verbatim>\<open>origin1\<close>: the old option is gone in both.
\<close>

theorem update_groe_params_replaces_options_witness:
  "n_evaluations (update_groe_params [''n_evaluations'' \<mapsto> 3, ''stride'' \<mapsto> 2]
      (init [0::nat] () (6::nat) [''origin1'' \<mapsto> 5] :: (nat, unit, nat, nat) groe_combination_model)) = 3 \<and>
   groe_kwargs (update_groe_params [''n_evaluations'' \<mapsto> 3, ''stride'' \<mapsto> 2]
      (init [0::nat] () (6::nat) [''origin1'' \<mapsto> 5] :: (nat, unit, nat, nat) groe_combination_model)) = [''stride'' \<mapsto> 2] \<and>
   n_evaluations (update_groe_params [''stride'' \<mapsto> 2]
      (init [0::nat] () (6::nat) [''origin1'' \<mapsto> 5] :: (nat, unit, nat, nat) groe_combination_model)) = 6 \<and>
   groe_kwargs (update_groe_params [''stride'' \<mapsto> 2]
      (init [0::nat] () (6::nat) [''origin1'' \<mapsto> 5] :: (nat, unit, nat, nat) groe_combination_model)) = [''stride'' \<mapsto> 2]"
proof -
  let ?st = "init [0::nat] () (6::nat) [''origin1'' \<mapsto> 5] :: (nat, unit, nat, nat) groe_combination_model"
  let ?k1 = "[''n_evaluations'' \<mapsto> 3::nat, ''stride'' \<mapsto> 2]"
  let ?k2 = "[''stride'' \<mapsto> 2::nat]"
  have a: "?k1 ''n_evaluations'' = Some 3" by simp
  have b: "?k2 ''n_evaluations'' = None" by simp
  have d: "?k1(''n_evaluations'' := None) = ?k2" by (rule ext) simp
  have i: "n_evaluations ?st = 6" by (simp add: init_def)
  from update_groe_params_replaces_options [of ?k1 ?st] a
  have "n_evaluations (update_groe_params ?k1 ?st) = 3 \<and>
      groe_kwargs (update_groe_params ?k1 ?st) = ?k1(''n_evaluations'' := None)"
    by blast
  moreover from update_groe_params_replaces_options [of ?k2 ?st] b
  have "groe_kwargs (update_groe_params ?k2 ?st) = ?k2 \<and>
      n_evaluations (update_groe_params ?k2 ?st) = n_evaluations ?st"
    by blast
  ultimately show ?thesis by (simp only: d i)
qed

text \<open>
  Claim C8. For every state and every supplied options mapping, the configuration update
  leaves the criterion vector and the weight vector unchanged: the state after the update
  is the state before it with the evaluation count and the auxiliary options set.
\<close>

theorem update_groe_params_frame:
  "criterion (update_groe_params kwargs st) = criterion st \<and>
   weights (update_groe_params kwargs st) = weights st \<and>
   update_groe_params kwargs st =
     st\<lparr>n_evaluations := n_evaluations (update_groe_params kwargs st),
        groe_kwargs := groe_kwargs (update_groe_params kwargs st)\<rparr>"
  by (simp add: update_groe_params_def split: option.splits)

text \<open>
  Claim C9. During fit the evaluator is called exactly once for every model of the list, in
  list order, with the training series, the metric, the evaluation count and the options
  of the object, whatever the earlier calls returned: the calls that a fit adds to the
  list of calls are those, for every evaluator, also one that returns the unbounded
  sentinel for an early model. The failure is decided after the loop. Observing the calls
  changes neither the outcome nor the object nor the world.
\<close>

theorem fit_calls_evaluator_for_every_model:
  "snd (snd (snd (fit np_sum (logged groe) ts st (w, calls)))) =
     calls @ map (\<lambda>m. (Some ts, m, metrics st, n_evaluations st, groe_kwargs st)) (models st) \<and>
   fst (fit np_sum (logged groe) ts st (w, calls)) = fst (fit np_sum groe ts st w) \<and>
   fst (snd (fit np_sum (logged groe) ts st (w, calls))) = fst (snd (fit np_sum groe ts st w)) \<and>
   fst (snd (snd (fit np_sum (logged groe) ts st (w, calls)))) = snd (snd (fit np_sum groe ts st w))"
proof -
  have e: "evaluations (fit_evaluator (logged groe) ts st) (models st) (w, calls) =
     (fst (evaluations (fit_evaluator groe ts st) (models st) w),
      (snd (evaluations (fit_evaluator groe ts st) (models st) w),
       calls @ map (\<lambda>m. (Some ts, m, metrics st, n_evaluations st, groe_kwargs st)) (models st)))"
    using evaluations_logged [of groe "Some ts" "\<lambda>m. m" "metrics st" "n_evaluations st" "groe_kwargs st" "models st" w calls]
    by (simp add: fit_evaluator_def)
  show ?thesis
    by (simp add: fit_general [of np_sum "logged groe"] fit_general [of np_sum groe] e Let_def split: option.splits)
qed

text \<open>The first model's loss is unbounded: the fit fails, and both models were evaluated.\<close>

theorem fit_calls_evaluator_for_every_model_witness:
  "fst (fit seq_sum (logged (table_groe [PosInf, Fin 1])) [] (fresh_model 2) ((), [])) =
     Inl EvaluationImpossible \<and>
   map (fst \<circ> snd) (snd (snd (snd (fit seq_sum (logged (table_groe [PosInf, Fin 1])) []
     (fresh_model 2) ((), []))))) = [0, 1]"
proof -
  have "fst (fit seq_sum (table_groe [PosInf, Fin 1]) ([] :: nat series) (fresh_model 2) ()) =
      Inl EvaluationImpossible"
    by (simp add: fit_eval)
  moreover have "models (fresh_model 2) = [0, 1]"
    by (simp add: fresh_model_def init_def upt_rec)
  ultimately show ?thesis
    using fit_calls_evaluator_for_every_model
      [of seq_sum "table_groe [PosInf, Fin 1]" "[]" "fresh_model 2" "()" "[]"]
    by (simp add: comp_def)
qed

text \<open>
  Claim C10. When fit fails with the evaluation-impossible condition, the stored criterion
  vector is the vector of the newly computed losses, the unbounded entries included,
  whatever the criterion was before the call.
\<close>

theorem fit_failure_updates_criterion:
  assumes "fit np_sum groe ts st w = (Inl EvaluationImpossible, st', w')"
  shows "criterion st' = Some (fst (evaluations (fit_evaluator groe ts st) (models st) w)) \<and>
    py_in PosInf (fst (evaluations (fit_evaluator groe ts st) (models st) w))"
  using assms
  by (auto simp: fit_general Let_def py_in_PosInf split: if_splits option.splits)

text \<open>The criterion \<open>[1.0, 1.0]\<close> of a successful fit is replaced by \<open>[1.0, inf]\<close>.\<close>

theorem fit_failure_updates_criterion_witness:
  "criterion (fst (snd (fit seq_sum (table_groe [Fin 1, Fin 1]) [] (fresh_model 2) ()))) =
     Some [Fin 1, Fin 1] \<and>
   fst (fit seq_sum (table_groe [Fin 1, PosInf]) []
     (fst (snd (fit seq_sum (table_groe [Fin 1, Fin 1]) [] (fresh_model 2) ()))) ()) =
     Inl EvaluationImpossible \<and>
   criterion (fst (snd (fit seq_sum (table_groe [Fin 1, PosInf]) []
     (fst (snd (fit seq_sum (table_groe [Fin 1, Fin 1]) [] (fresh_model 2) ()))) ()))) =
     Some [Fin 1, PosInf]"
proof -
  let ?st1 = "fst (snd (fit seq_sum (table_groe [Fin 1, Fin 1]) ([] :: nat series) (fresh_model 2) ()))"
  let ?f = "fit seq_sum (table_groe [Fin 1, PosInf]) [] ?st1 ()"
  have c1: "criterion ?st1 = Some [Fin 1, Fin 1]" by (simp add: fit_eval)
  have r: "fst ?f = Inl EvaluationImpossible" by (simp add: fit_eval)
  then have f: "?f = (Inl EvaluationImpossible, fst (snd ?f), ())" by (simp add: prod_eq_iff)
  have m: "models ?st1 = [0, 1]" by (simp add: fit_eval)
  have e: "fst (evaluations (fit_evaluator (table_groe [Fin 1, PosInf]) [] ?st1) [0, 1] ()) =
      [Fin 1, PosInf]"
    by (simp add: fit_evaluator_def table_groe_def)
  from fit_failure_updates_criterion [OF f] have "criterion (fst (snd ?f)) =
      Some (fst (evaluations (fit_evaluator (table_groe [Fin 1, PosInf]) [] ?st1) (models ?st1) ()))"
    by blast
  then have "criterion (fst (snd ?f)) = Some [Fin 1, PosInf]" by (simp only: m e)
  with c1 r show ?thesis by simp
qed


end
